theory Spec2Isabelle
  imports Main "HOL-Library.Sublist" "HOL-Library.AList"
begin

section \<open>The task base class of ReaDuct (src/Readuct/App/Tasks/Task.h)\<close>

text \<open>
  The header defines the class \<open>Task\<close>: two constant lists of system names, a shared
  pointer to a logger, a constructor, two accessors, two multiplicity warnings, the
  resolution of the \<open>stop_on_error\<close> setting, an error text, and the static helper
  \<open>copyCalculator\<close>. Everything that the C++ code does besides returning a value is
  explicit here: a \<open>throw\<close> is the left summand of a result, objects behind a
  \<open>std::shared_ptr\<close> live in a store that the functions take and give back, and the
  settings collection that \<open>stopOnErrorExtraction\<close> receives by reference is returned.
\<close>

subsection \<open>Exceptions\<close>

text \<open>
  \<open>runtime_error\<close> is a thrown \<open>std::runtime_error\<close> with its message as \<open>what()\<close>
  gives it. \<open>what()\<close> returns a C string, so of the \<open>std::string\<close> that the exception
  is constructed from, the message keeps the bytes before the first NUL byte only:
  \<open>std_runtime_error\<close> is the translation of \<open>throw std::runtime_error(s)\<close>.
  Dereferencing a shared pointer that holds no object is undefined behaviour in C++; the
  model makes it the visible failure \<open>invalid_dereference\<close>.
\<close>

datatype error = runtime_error string | invalid_dereference

definition c_str :: "string \<Rightarrow> string" where
  "c_str s = takeWhile (\<lambda>c. c \<noteq> CHR 0x00) s"

definition std_runtime_error :: "string \<Rightarrow> error" where
  "std_runtime_error s = runtime_error (c_str s)"

subsection \<open>Shared pointers and the store\<close>

text \<open>
  A \<open>std::shared_ptr\<close> is \<open>None\<close> (the null pointer) or the address of a cell of the
  store. The store of the objects of one class is the list of their states, an address is
  an index of it, and \<open>std::make_shared\<close> appends a cell.
\<close>

type_synonym shared_ptr = "nat option"

definition make_shared :: "'a \<Rightarrow> 'a list \<Rightarrow> shared_ptr \<times> 'a list" where
  "make_shared v h = (Some (length h), h @ [v])"

definition deref :: "shared_ptr \<Rightarrow> 'a list \<Rightarrow> 'a option" where
  "deref p h =
     (case p of
        None \<Rightarrow> None
      | Some a \<Rightarrow> if a < length h then Some (h ! a) else None)"

subsection \<open>The logger\<close>

text \<open>
  Modelled from the spec: the class \<open>Core::Log\<close> is not part of the header. The spec
  asks of the diagnostic sink a warning-level message channel, and of the default sink
  that it is usable when none is supplied. The state of a logger is the list of the
  messages written to its \<open>warning\<close> channel, oldest first; one output statement
  \<open>_logger->warning << s1 << ... << sn\<close> writes one message, the concatenation of its
  operands. A default-constructed logger has received nothing.
\<close>

record Log =
  warning :: "string list"

definition default_Log :: Log where
  "default_Log = \<lparr>warning = []\<rparr>"

definition warning_write :: "shared_ptr \<Rightarrow> string \<Rightarrow> Log list \<Rightarrow> (error + unit) \<times> Log list" where
  "warning_write p msg h =
     (case p of
        None \<Rightarrow> (Inl invalid_dereference, h)
      | Some a \<Rightarrow>
          if a < length h
          then (Inr (), h[a := (h ! a)\<lparr>warning := warning (h ! a) @ [msg]\<rparr>])
          else (Inl invalid_dereference, h))"

text \<open>The messages that the logger of a pointer has received (none when there is no logger).\<close>

definition warnings :: "shared_ptr \<Rightarrow> Log list \<Rightarrow> string list" where
  "warnings p h = (case deref p h of None \<Rightarrow> [] | Some l \<Rightarrow> warning l)"

subsection \<open>The class\<close>

text \<open>
  The members \<open>_input\<close>, \<open>_output\<close> and \<open>_logger\<close>. The two lists are \<open>const\<close>, and
  every member function below is \<open>const\<close> or \<open>static\<close>: none returns a changed task.
\<close>

record Task =
  m_input :: "string list"
  m_output :: "string list"
  m_logger :: shared_ptr

text \<open>
  The constructor (lines 47 to 56) first replaces a null logger by a fresh default one,
  then rejects an empty input list. When it throws, the members are destroyed, and with
  them the logger it has just made: the store is as it was.
\<close>

definition Task :: "string list \<Rightarrow> string list \<Rightarrow> shared_ptr \<Rightarrow> Log list \<Rightarrow> (error + Task) \<times> Log list" where
  "Task input output logger h =
     (let (l, h1) = (if logger = None then make_shared default_Log h else (logger, h))
      in if input = [] then (Inl (std_runtime_error ''No input systems specified!''), h)
         else (Inr \<lparr>m_input = input, m_output = output, m_logger = l\<rparr>, h1))"

definition input :: "Task \<Rightarrow> string list" where
  "input t = m_input t"

definition "output" :: "Task \<Rightarrow> string list" where
  "output t = m_output t"

definition multiple_inputs_warning :: string where
  "multiple_inputs_warning =
     ''  Warning: More than one input system was specified. Only taking first and ignoring all others.\<newline>''"

definition multiple_outputs_warning :: string where
  "multiple_outputs_warning =
     ''  Warning: More than one output system was specified. Only taking first and ignoring all others.\<newline>''"

text \<open>
  The two warnings (lines 95 to 109) write to the logger, which is not part of the task
  but shared with it: their result is the failure, if any, and the store of the loggers.
\<close>

definition warningIfMultipleInputsGiven :: "Task \<Rightarrow> Log list \<Rightarrow> (error + unit) \<times> Log list" where
  "warningIfMultipleInputsGiven t h =
     (if length (m_input t) > 1
      then warning_write (m_logger t) multiple_inputs_warning h
      else (Inr (), h))"

definition warningIfMultipleOutputsGiven :: "Task \<Rightarrow> Log list \<Rightarrow> (error + unit) \<times> Log list" where
  "warningIfMultipleOutputsGiven t h =
     (if length (m_output t) > 1
      then warning_write (m_logger t) multiple_outputs_warning h
      else (Inr (), h))"

subsection \<open>The settings of a task\<close>

text \<open>
  Modelled from the spec: the class \<open>Utils::UniversalSettings::ValueCollection\<close> is
  not part of the header. The spec describes it as a mutable store of named values with
  an existence check and an extraction with default that removes the key. The store is
  the list of its (key, value) pairs; the values that the header extracts are requested
  as \<open>bool\<close>, the type that the spec gives to the keys concerned.
\<close>

type_synonym ValueCollection = "(string \<times> bool) list"

definition valueExists :: "string \<Rightarrow> ValueCollection \<Rightarrow> bool" where
  "valueExists name vc = (map_of vc name \<noteq> None)"

definition "extract" :: "string \<Rightarrow> bool \<Rightarrow> ValueCollection \<Rightarrow> bool \<times> ValueCollection" where
  "extract name defaultValue vc =
     (case map_of vc name of
        None \<Rightarrow> (defaultValue, vc)
      | Some v \<Rightarrow> (v, AList.delete name vc))"

subsection \<open>Resolution of \<open>stop_on_error\<close> (lines 111 to 120)\<close>

definition deprecation_warning :: string where
  "deprecation_warning =
     ''  The option 'allow_unconverged' is deprecated.\<newline>'' @
     ''  It has been replaced with 'stop_on_error',\<newline>'' @
     ''  which is now available for all tasks and is defaulted to 'true'.\<newline>\<newline>''"

text \<open>
  The result is the returned value or the failure, the settings as the call leaves them,
  and the store of the loggers.
\<close>

definition stopOnErrorExtraction ::
  "Task \<Rightarrow> ValueCollection \<Rightarrow> Log list \<Rightarrow> (error + bool) \<times> ValueCollection \<times> Log list" where
  "stopOnErrorExtraction t taskSettings h =
     (if valueExists ''allow_unconverged'' taskSettings
      then (case warning_write (m_logger t) deprecation_warning h of
              (Inl e, h1) \<Rightarrow> (Inl e, taskSettings, h1)
            | (Inr u, h1) \<Rightarrow>
                (let (allowUnconverged, s1) = extract ''allow_unconverged'' False taskSettings;
                     stopOnError = \<not> allowUnconverged;
                     (r, s2) = extract ''stop_on_error'' stopOnError s1
                 in (Inr r, s2, h1)))
      else (let stopOnError = True;
                (r, s2) = extract ''stop_on_error'' stopOnError taskSettings
            in (Inr r, s2, h)))"

subsection \<open>The registry of systems and \<open>copyCalculator\<close> (lines 30 to 39)\<close>

text \<open>
  \<open>SystemsMap\<close> is \<open>std::map<std::string, std::shared_ptr<Core::Calculator>>\<close>. The
  calculators live in a store of their own; their state is a type parameter, since the
  header never looks inside one.
\<close>

type_synonym SystemsMap = "string \<rightharpoonup> shared_ptr"

text \<open>
  Modelled from the spec: the class \<open>Core::Calculator\<close> and its \<open>clone()\<close> are not part
  of the header. The spec says of \<open>clone()\<close> that it yields a new handle that shares no
  mutable state with its source: a fresh cell of the store, holding a copy of the state
  of the calculator it is called on.
\<close>

definition clone :: "'c \<Rightarrow> 'c list \<Rightarrow> nat \<times> 'c list" where
  "clone c h = (length h, h @ [c])"

text \<open>Assignment through a handle, the way a task changes the calculator it works on.\<close>

definition assign :: "shared_ptr \<Rightarrow> 'c \<Rightarrow> 'c list \<Rightarrow> 'c list" where
  "assign p v h = (case p of None \<Rightarrow> h | Some a \<Rightarrow> h[a := v])"

definition missing_system :: "string \<Rightarrow> string \<Rightarrow> string" where
  "missing_system name taskName =
     ''System name '' @ [CHR 0x27] @ name @ [CHR 0x27] @ '' is missing in '' @ taskName"

text \<open>
  The registry is passed by non-constant reference, so it is part of the result, next to
  the returned handle or the failure and the store of the calculators.
\<close>

definition copyCalculator ::
  "SystemsMap \<Rightarrow> string \<Rightarrow> string \<Rightarrow> 'c list \<Rightarrow> (error + shared_ptr) \<times> SystemsMap \<times> 'c list" where
  "copyCalculator systems name taskName h =
     (case systems name of
        None \<Rightarrow> (Inl (std_runtime_error (missing_system name taskName)), systems, h)
      | Some p \<Rightarrow>
          (case deref p h of
             None \<Rightarrow> (Inl invalid_dereference, systems, h)
           | Some c \<Rightarrow> (let (q, h1) = clone c h in (Inr (Some q), systems, h1))))"

subsection \<open>The error text for unexpected task settings\<close>

definition falseTaskSettingsErrorMessage :: "string \<Rightarrow> string" where
  "falseTaskSettingsErrorMessage name =
     ''  You gave Task settings for the '' @ name @ '',\<newline>'' @
     ''  but the only possible setting for this task, are the\<newline>'' @
     ''  'stop_on_error' option to control whether ReaDuct fails\<newline>'' @
     ''  with a failed calculation or simply returns false\<newline>'' @
     ''  and the 'silent_stdout_calculator' option to control whether\<newline>'' @
     ''  the standard output of the calculator should be printed.\<newline>'' @
     ''  You might want to specify the settings you put into the task settings\<newline>'' @
     ''  in the systems section.''"

subsection \<open>The contract of \<open>run\<close> (lines 74 to 77)\<close>

text \<open>
  Modelled from the spec: \<open>run\<close> is pure virtual in the header and no concrete task is
  among the sources, so its body follows section 4.1 of the spec. Before any calculation
  work every input name must exist in the registry, else a missing-system error naming
  the task and the system is raised; the settings must hold recognized keys only, else
  an unexpected-settings error is raised, and the stop-on-error policy is resolved by
  extraction. In test mode the call then returns whether the inputs are well-formed. What
  a task does when it really runs (the calculation, the reports to the observers, the
  results written under the output names, the outcome under the resolved policy) is its
  own and is a parameter here, as are its name, the keys it recognizes, the text of its
  settings error and its structural checks. The settings are passed by value.
\<close>

record 'c concrete_task =
  task_name :: string
  recognized :: "string \<Rightarrow> bool"
  unexpected_settings :: string
  structural_checks :: "SystemsMap \<Rightarrow> 'c list \<Rightarrow> bool"
  calculation ::
    "bool \<Rightarrow> SystemsMap \<Rightarrow> 'c list \<Rightarrow> Log list \<Rightarrow> (error + bool) \<times> SystemsMap \<times> 'c list \<times> Log list"

definition run ::
  "'c concrete_task \<Rightarrow> Task \<Rightarrow> SystemsMap \<Rightarrow> ValueCollection \<Rightarrow> bool \<Rightarrow> 'c list \<Rightarrow> Log list
     \<Rightarrow> (error + bool) \<times> SystemsMap \<times> 'c list \<times> Log list" where
  "run k t systems taskSettings test hc hl =
     (case find (\<lambda>n. systems n = None) (m_input t) of
        Some n \<Rightarrow> (Inl (std_runtime_error (missing_system n (task_name k))), systems, hc, hl)
      | None \<Rightarrow>
          (case stopOnErrorExtraction t taskSettings hl of
             (Inl e, s1, hl1) \<Rightarrow> (Inl e, systems, hc, hl1)
           | (Inr stopOnError, s1, hl1) \<Rightarrow>
               if \<not> list_all (\<lambda>(key, v). key = ''silent_stdout_calculator'' \<or> recognized k key) s1
               then (Inl (std_runtime_error (unexpected_settings k)), systems, hc, hl1)
               else if test then (Inr (structural_checks k systems hc), systems, hc, hl1)
               else calculation k stopOnError systems hc hl1))"

section \<open>Properties\<close>

subsection \<open>Writing a warning\<close>

text \<open>
  A write through a pointer whose logger exists succeeds, appends the message to that
  logger and to no other, and keeps every existing logger in existence.
\<close>

lemma warning_write_fst: "deref p h \<noteq> None \<Longrightarrow> fst (warning_write p msg h) = Inr ()"
  by (auto simp: warning_write_def deref_def split: option.splits)

lemma warning_write_length: "length (snd (warning_write p msg h)) = length h"
  by (auto simp: warning_write_def split: option.splits)

lemma warning_write_warnings:
  "deref p h \<noteq> None \<Longrightarrow> warnings p (snd (warning_write p msg h)) = warnings p h @ [msg]"
  by (auto simp: warning_write_def warnings_def deref_def split: option.splits)

lemma warning_write_other:
  "q \<noteq> p \<Longrightarrow> deref q (snd (warning_write p msg h)) = deref q h"
  by (cases p; cases q) (simp_all add: warning_write_def deref_def)

lemma warning_write_valid:
  "deref q h \<noteq> None \<Longrightarrow> deref q (snd (warning_write p msg h)) \<noteq> None"
  by (auto simp: warning_write_def deref_def split: option.splits if_splits)

text \<open>
  Claim C6. For every task whose logger exists, \<open>warningIfMultipleInputsGiven\<close> does
  not raise, appends exactly one message to the warnings of the task's logger when the
  input list is longer than 1 and none otherwise, and leaves the number of loggers and
  every other logger unchanged; \<open>warningIfMultipleOutputsGiven\<close> does the same for the
  output list. The task itself is a constant of both calls.
\<close>

theorem warningIfMultiple_emits:
  assumes "deref (m_logger t) h \<noteq> None"
  shows "fst (warningIfMultipleInputsGiven t h) = Inr () \<and>
         warnings (m_logger t) (snd (warningIfMultipleInputsGiven t h)) =
           warnings (m_logger t) h @ (if length (input t) > 1 then [multiple_inputs_warning] else []) \<and>
         length (snd (warningIfMultipleInputsGiven t h)) = length h \<and>
         (\<forall>q. q \<noteq> m_logger t \<longrightarrow> deref q (snd (warningIfMultipleInputsGiven t h)) = deref q h) \<and>
         fst (warningIfMultipleOutputsGiven t h) = Inr () \<and>
         warnings (m_logger t) (snd (warningIfMultipleOutputsGiven t h)) =
           warnings (m_logger t) h @ (if length (output t) > 1 then [multiple_outputs_warning] else []) \<and>
         length (snd (warningIfMultipleOutputsGiven t h)) = length h \<and>
         (\<forall>q. q \<noteq> m_logger t \<longrightarrow> deref q (snd (warningIfMultipleOutputsGiven t h)) = deref q h)"
  using assms
  by (simp add: warningIfMultipleInputsGiven_def warningIfMultipleOutputsGiven_def input_def output_def
      warning_write_fst warning_write_length warning_write_warnings warning_write_other)

theorem warningIfMultiple_emits_witness:
  "deref (m_logger \<lparr>m_input = [''A'', ''C''], m_output = [''B''], m_logger = Some 0\<rparr>)
     [default_Log, default_Log] \<noteq> None \<and>
   Some 1 \<noteq> m_logger \<lparr>m_input = [''A'', ''C''], m_output = [''B''], m_logger = Some 0\<rparr> \<and>
   fst (warningIfMultipleInputsGiven \<lparr>m_input = [''A'', ''C''], m_output = [''B''], m_logger = Some 0\<rparr>
     [default_Log, default_Log]) = Inr () \<and>
   warnings (Some 0)
     (snd (warningIfMultipleInputsGiven \<lparr>m_input = [''A'', ''C''], m_output = [''B''], m_logger = Some 0\<rparr>
       [default_Log, default_Log])) = [multiple_inputs_warning] \<and>
   deref (Some 1)
     (snd (warningIfMultipleInputsGiven \<lparr>m_input = [''A'', ''C''], m_output = [''B''], m_logger = Some 0\<rparr>
       [default_Log, default_Log])) = Some default_Log \<and>
   fst (warningIfMultipleOutputsGiven \<lparr>m_input = [''A'', ''C''], m_output = [''B''], m_logger = Some 0\<rparr>
     [default_Log, default_Log]) = Inr () \<and>
   warnings (Some 0)
     (snd (warningIfMultipleOutputsGiven \<lparr>m_input = [''A'', ''C''], m_output = [''B''], m_logger = Some 0\<rparr>
       [default_Log, default_Log])) = []"
proof -
  let ?t = "\<lparr>m_input = [''A'', ''C''], m_output = [''B''], m_logger = Some 0\<rparr>"
  have h: "deref (m_logger ?t) [default_Log, default_Log] \<noteq> None"
    by (simp add: deref_def)
  have w: "warnings (Some 0) [default_Log, default_Log] = []"
    by (simp add: warnings_def deref_def default_Log_def)
  have d: "deref (Some 1) [default_Log, default_Log] = Some default_Log"
    by (simp add: deref_def)
  have l: "length (input ?t) > 1" "\<not> length (output ?t) > 1"
    by (simp_all add: input_def output_def)
  show ?thesis
    using h w d l warningIfMultiple_emits [OF h]
    by (simp del: not_None_eq)
qed

subsection \<open>Extraction from the settings\<close>

lemma extract_fst: "fst (extract name d vc) = (case map_of vc name of None \<Rightarrow> d | Some v \<Rightarrow> v)"
  by (simp add: extract_def split: option.splits)

lemma extract_snd: "snd (extract name d vc) = AList.delete name vc"
proof (cases "map_of vc name")
  case None
  then have "name \<notin> fst ` set vc" by (simp add: map_of_eq_None_iff)
  with None show ?thesis by (simp add: extract_def)
next
  case (Some v)
  then show ?thesis by (simp add: extract_def)
qed

lemma stopOnErrorExtraction_absent:
  "\<not> valueExists ''allow_unconverged'' s \<Longrightarrow>
   stopOnErrorExtraction t s h =
     (Inr (fst (extract ''stop_on_error'' True s)), snd (extract ''stop_on_error'' True s), h)"
  by (simp add: stopOnErrorExtraction_def split: prod.splits)

lemma stopOnErrorExtraction_present:
  assumes "valueExists ''allow_unconverged'' s" and "deref (m_logger t) h \<noteq> None"
  shows "stopOnErrorExtraction t s h =
     (Inr (fst (extract ''stop_on_error'' (\<not> fst (extract ''allow_unconverged'' False s))
                 (snd (extract ''allow_unconverged'' False s)))),
      snd (extract ''stop_on_error'' (\<not> fst (extract ''allow_unconverged'' False s))
                 (snd (extract ''allow_unconverged'' False s))),
      snd (warning_write (m_logger t) deprecation_warning h))"
proof -
  from assms(2) have "fst (warning_write (m_logger t) deprecation_warning h) = Inr ()"
    by (rule warning_write_fst)
  then obtain h1 where "warning_write (m_logger t) deprecation_warning h = (Inr (), h1)"
    by (cases "warning_write (m_logger t) deprecation_warning h") simp
  with assms(1) show ?thesis
    by (simp add: stopOnErrorExtraction_def split: prod.splits)
qed

text \<open>
  Claim C1. For every settings collection, and a task whose logger exists:
  \<open>stopOnErrorExtraction\<close> returns the value stored under \<open>stop_on_error\<close> when that
  key is present; when it is absent and the deprecated key \<open>allow_unconverged\<close> is
  present, it returns the negation of the value stored under \<open>allow_unconverged\<close>; when
  both are absent, it returns true.
\<close>

theorem stopOnErrorExtraction_value:
  assumes "deref (m_logger t) h \<noteq> None"
  shows "(\<forall>v. map_of s ''stop_on_error'' = Some v \<longrightarrow> fst (stopOnErrorExtraction t s h) = Inr v) \<and>
         (\<forall>a. map_of s ''stop_on_error'' = None \<and> map_of s ''allow_unconverged'' = Some a \<longrightarrow>
              fst (stopOnErrorExtraction t s h) = Inr (\<not> a)) \<and>
         (map_of s ''stop_on_error'' = None \<and> map_of s ''allow_unconverged'' = None \<longrightarrow>
              fst (stopOnErrorExtraction t s h) = Inr True)"
proof (cases "valueExists ''allow_unconverged'' s")
  case True
  then show ?thesis
    using assms
    by (auto simp: stopOnErrorExtraction_present extract_fst extract_snd valueExists_def)
next
  case False
  then show ?thesis
    by (auto simp: stopOnErrorExtraction_absent extract_fst valueExists_def)
qed

theorem stopOnErrorExtraction_value_witness:
  "deref (m_logger \<lparr>m_input = [''A''], m_output = [''B''], m_logger = Some 0\<rparr>) [default_Log] \<noteq> None \<and>
   fst (stopOnErrorExtraction \<lparr>m_input = [''A''], m_output = [''B''], m_logger = Some 0\<rparr>
          [(''allow_unconverged'', True)] [default_Log]) = Inr False \<and>
   fst (stopOnErrorExtraction \<lparr>m_input = [''A''], m_output = [''B''], m_logger = Some 0\<rparr>
          [(''allow_unconverged'', False)] [default_Log]) = Inr True \<and>
   fst (stopOnErrorExtraction \<lparr>m_input = [''A''], m_output = [''B''], m_logger = Some 0\<rparr>
          [(''allow_unconverged'', True), (''stop_on_error'', True)] [default_Log]) = Inr True \<and>
   fst (stopOnErrorExtraction \<lparr>m_input = [''A''], m_output = [''B''], m_logger = Some 0\<rparr>
          [] [default_Log]) = Inr True"
proof -
  let ?t = "\<lparr>m_input = [''A''], m_output = [''B''], m_logger = Some 0\<rparr>"
  have h: "deref (m_logger ?t) [default_Log] \<noteq> None"
    by (simp add: deref_def)
  show ?thesis
    using h
      stopOnErrorExtraction_value [OF h, of "[(''allow_unconverged'', True)]"]
      stopOnErrorExtraction_value [OF h, of "[(''allow_unconverged'', False)]"]
      stopOnErrorExtraction_value [OF h, of "[(''allow_unconverged'', True), (''stop_on_error'', True)]"]
      stopOnErrorExtraction_value [OF h, of "[]"]
    by auto
qed

lemma stopOnErrorExtraction_settings:
  assumes "deref (m_logger t) h \<noteq> None"
  shows "fst (snd (stopOnErrorExtraction t s h)) =
           AList.delete ''stop_on_error'' (AList.delete ''allow_unconverged'' s)"
proof (cases "valueExists ''allow_unconverged'' s")
  case True
  with assms show ?thesis
    by (simp add: stopOnErrorExtraction_present extract_snd)
next
  case False
  then have "''allow_unconverged'' \<notin> fst ` set s"
    by (simp add: valueExists_def map_of_eq_None_iff)
  with False show ?thesis
    by (simp add: stopOnErrorExtraction_absent extract_snd)
qed

lemma stopOnErrorExtraction_log:
  assumes "deref (m_logger t) h \<noteq> None"
  shows "snd (snd (stopOnErrorExtraction t s h)) =
           (if valueExists ''allow_unconverged'' s
            then snd (warning_write (m_logger t) deprecation_warning h) else h)"
  using assms by (simp add: stopOnErrorExtraction_present stopOnErrorExtraction_absent)

lemma delete_delete_filter:
  "AList.delete a (AList.delete b s) = filter (\<lambda>(k, v). k \<noteq> b \<and> k \<noteq> a) s"
  by (induction s) (auto simp: AList.delete_eq)

text \<open>
  Claim C2. For every settings collection, and a task whose logger exists: the call
  appends to the warnings of the task's logger exactly the one deprecation message when
  \<open>allow_unconverged\<close> is present and nothing when it is absent, and leaves every other
  logger as it was; in the settings it leaves, neither \<open>allow_unconverged\<close> nor
  \<open>stop_on_error\<close> is present, every other key has the value it had, and the remaining
  entries stand in their old order.
\<close>

theorem stopOnErrorExtraction_effects:
  assumes "deref (m_logger t) h \<noteq> None"
  shows "warnings (m_logger t) (snd (snd (stopOnErrorExtraction t s h))) =
           warnings (m_logger t) h @
           (if valueExists ''allow_unconverged'' s then [deprecation_warning] else []) \<and>
         (\<forall>q. q \<noteq> m_logger t \<longrightarrow> deref q (snd (snd (stopOnErrorExtraction t s h))) = deref q h) \<and>
         \<not> valueExists ''allow_unconverged'' (fst (snd (stopOnErrorExtraction t s h))) \<and>
         \<not> valueExists ''stop_on_error'' (fst (snd (stopOnErrorExtraction t s h))) \<and>
         (\<forall>k. k \<noteq> ''allow_unconverged'' \<and> k \<noteq> ''stop_on_error'' \<longrightarrow>
              map_of (fst (snd (stopOnErrorExtraction t s h))) k = map_of s k) \<and>
         fst (snd (stopOnErrorExtraction t s h)) =
           filter (\<lambda>(k, v). k \<noteq> ''allow_unconverged'' \<and> k \<noteq> ''stop_on_error'') s"
proof (intro conjI)
  show "warnings (m_logger t) (snd (snd (stopOnErrorExtraction t s h))) =
           warnings (m_logger t) h @
           (if valueExists ''allow_unconverged'' s then [deprecation_warning] else [])"
    using assms by (simp add: stopOnErrorExtraction_log warning_write_warnings)
  show "\<forall>q. q \<noteq> m_logger t \<longrightarrow> deref q (snd (snd (stopOnErrorExtraction t s h))) = deref q h"
    using assms by (simp add: stopOnErrorExtraction_log warning_write_other)
  show "\<not> valueExists ''allow_unconverged'' (fst (snd (stopOnErrorExtraction t s h)))"
    using assms by (simp add: stopOnErrorExtraction_settings valueExists_def AList.delete_conv')
  show "\<not> valueExists ''stop_on_error'' (fst (snd (stopOnErrorExtraction t s h)))"
    using assms by (simp add: stopOnErrorExtraction_settings valueExists_def AList.delete_conv')
  show "\<forall>k. k \<noteq> ''allow_unconverged'' \<and> k \<noteq> ''stop_on_error'' \<longrightarrow>
              map_of (fst (snd (stopOnErrorExtraction t s h))) k = map_of s k"
    using assms by (simp add: stopOnErrorExtraction_settings)
  show "fst (snd (stopOnErrorExtraction t s h)) =
           filter (\<lambda>(k, v). k \<noteq> ''allow_unconverged'' \<and> k \<noteq> ''stop_on_error'') s"
    using assms by (simp add: stopOnErrorExtraction_settings delete_delete_filter)
qed

theorem stopOnErrorExtraction_effects_witness:
  "deref (m_logger \<lparr>m_input = [''A''], m_output = [''B''], m_logger = Some 0\<rparr>)
     [default_Log, default_Log] \<noteq> None \<and>
   Some 1 \<noteq> m_logger \<lparr>m_input = [''A''], m_output = [''B''], m_logger = Some 0\<rparr> \<and>
   warnings (Some 0)
     (snd (snd (stopOnErrorExtraction \<lparr>m_input = [''A''], m_output = [''B''], m_logger = Some 0\<rparr>
        [(''max_iter'', False), (''allow_unconverged'', True), (''stop_on_error'', True)]
        [default_Log, default_Log]))) = [deprecation_warning] \<and>
   deref (Some 1)
     (snd (snd (stopOnErrorExtraction \<lparr>m_input = [''A''], m_output = [''B''], m_logger = Some 0\<rparr>
        [(''max_iter'', False), (''allow_unconverged'', True), (''stop_on_error'', True)]
        [default_Log, default_Log]))) = Some default_Log \<and>
   fst (snd (stopOnErrorExtraction \<lparr>m_input = [''A''], m_output = [''B''], m_logger = Some 0\<rparr>
        [(''max_iter'', False), (''allow_unconverged'', True), (''stop_on_error'', True)]
        [default_Log, default_Log])) = [(''max_iter'', False)] \<and>
   map_of (fst (snd (stopOnErrorExtraction \<lparr>m_input = [''A''], m_output = [''B''], m_logger = Some 0\<rparr>
        [(''max_iter'', False), (''allow_unconverged'', True), (''stop_on_error'', True)]
        [default_Log, default_Log]))) ''max_iter'' = Some False \<and>
   warnings (Some 0)
     (snd (snd (stopOnErrorExtraction \<lparr>m_input = [''A''], m_output = [''B''], m_logger = Some 0\<rparr>
        [(''stop_on_error'', False)] [default_Log, default_Log]))) = []"
proof -
  let ?t = "\<lparr>m_input = [''A''], m_output = [''B''], m_logger = Some 0\<rparr>"
  have h: "deref (m_logger ?t) [default_Log, default_Log] \<noteq> None"
    by (simp add: deref_def)
  have w: "warnings (Some 0) [default_Log, default_Log] = []"
    by (simp add: warnings_def deref_def default_Log_def)
  have d: "deref (Some 1) [default_Log, default_Log] = Some default_Log"
    by (simp add: deref_def)
  have v: "valueExists ''allow_unconverged''
             [(''max_iter'', False), (''allow_unconverged'', True), (''stop_on_error'', True)]"
    "\<not> valueExists ''allow_unconverged'' [(''stop_on_error'', False)]"
    by (simp_all add: valueExists_def)
  show ?thesis
    using h w d v
      stopOnErrorExtraction_effects [OF h,
        of "[(''max_iter'', False), (''allow_unconverged'', True), (''stop_on_error'', True)]"]
      stopOnErrorExtraction_effects [OF h, of "[(''stop_on_error'', False)]"]
    by (simp del: not_None_eq)
qed

subsection \<open>Construction and the accessors\<close>

text \<open>
  Claim C4. For every output list, logger argument and store, the constructor with an
  empty input list fails with the \<open>runtime_error\<close> of its precondition; with a non-empty
  input list it succeeds, also when the output list is empty.
\<close>

theorem Task_input_check:
  "Task [] outp logger h = (Inl (runtime_error ''No input systems specified!''), h) \<and>
   (inp \<noteq> [] \<longrightarrow> (\<exists>t h'. Task inp outp logger h = (Inr t, h') \<and>
                                Task inp [] logger h = (Inr (t\<lparr>m_output := []\<rparr>), h')))"
  by (simp add: Task_def make_shared_def std_runtime_error_def c_str_def)

theorem Task_input_check_witness:
  "[''A''] \<noteq> ([] :: string list) \<and>
   (\<exists>t h'. Task [''A''] [''B''] None [] = (Inr t, h') \<and>
           Task [''A''] [] None [] = (Inr (t\<lparr>m_output := []\<rparr>), h'))"
  using Task_input_check [of "[''B'']" None "[]" "[''A'']"] by simp

text \<open>
  Claim C8. For every task that the constructor has built, \<open>input\<close> and \<open>output\<close> give
  the lists of names supplied at construction, in their order. Both accessors are
  functions of the task alone: they take and return no store, and no member function
  gives back a changed task.
\<close>

theorem accessors_as_constructed:
  assumes "Task inp outp logger h = (Inr t, h')"
  shows "input t = inp \<and> output t = outp"
  using assms
  by (auto simp: Task_def input_def output_def Let_def split: prod.splits if_splits)

theorem accessors_as_constructed_witness:
  "Task [''A'', ''C''] [''B''] None [] =
     (Inr \<lparr>m_input = [''A'', ''C''], m_output = [''B''], m_logger = Some 0\<rparr>, [default_Log]) \<and>
   input \<lparr>m_input = [''A'', ''C''], m_output = [''B''], m_logger = Some 0\<rparr> = [''A'', ''C''] \<and>
   output \<lparr>m_input = [''A'', ''C''], m_output = [''B''], m_logger = Some 0\<rparr> = [''B'']"
proof -
  have h: "Task [''A'', ''C''] [''B''] None [] =
     (Inr \<lparr>m_input = [''A'', ''C''], m_output = [''B''], m_logger = Some 0\<rparr>, [default_Log])"
    by (simp add: Task_def make_shared_def)
  show ?thesis
    using h accessors_as_constructed [OF h] by simp
qed

subsection \<open>The logger of a constructed task\<close>

text \<open>
  The constructor leaves a task whose logger exists, whether it was supplied or made; the
  operations that write a warning keep it in existence.
\<close>

lemma Task_logger_exists:
  assumes "Task inp outp logger h = (Inr t, h')" and "logger = None \<or> deref logger h \<noteq> None"
  shows "deref (m_logger t) h' \<noteq> None"
  using assms
  by (auto simp: Task_def make_shared_def deref_def split: if_splits)

lemma Task_null_logger:
  "inp \<noteq> [] \<Longrightarrow>
   Task inp outp None h =
     (Inr \<lparr>m_input = inp, m_output = outp, m_logger = Some (length h)\<rparr>, h @ [default_Log])"
  by (simp add: Task_def make_shared_def)

lemma warningIfMultipleInputsGiven_valid:
  assumes "deref (m_logger t) h \<noteq> None"
  shows "fst (warningIfMultipleInputsGiven t h) = Inr ()"
    and "deref (m_logger t) (snd (warningIfMultipleInputsGiven t h)) \<noteq> None"
  using assms by (simp_all add: warningIfMultipleInputsGiven_def warning_write_fst warning_write_valid del: not_None_eq)

lemma warningIfMultipleOutputsGiven_valid:
  assumes "deref (m_logger t) h \<noteq> None"
  shows "fst (warningIfMultipleOutputsGiven t h) = Inr ()"
    and "deref (m_logger t) (snd (warningIfMultipleOutputsGiven t h)) \<noteq> None"
  using assms by (simp_all add: warningIfMultipleOutputsGiven_def warning_write_fst warning_write_valid del: not_None_eq)

lemma stopOnErrorExtraction_valid:
  assumes "deref (m_logger t) h \<noteq> None"
  shows "\<exists>b. fst (stopOnErrorExtraction t s h) = Inr b"
    and "deref (m_logger t) (snd (snd (stopOnErrorExtraction t s h))) \<noteq> None"
  using assms
  by (cases "valueExists ''allow_unconverged'' s";
      simp add: stopOnErrorExtraction_present stopOnErrorExtraction_absent warning_write_valid
        del: not_None_eq)+

text \<open>
  Claim C9. With a non-empty input list and a null logger the constructor succeeds and
  the task holds a fresh default logger, the loggers that existed before being untouched.
  From then on, in every store in which that logger exists, the two multiplicity warnings
  and \<open>stopOnErrorExtraction\<close> do not fail, and the logger exists in the store they
  leave, so that this holds after any number of such calls.
\<close>

theorem Task_installs_default_logger:
  assumes "inp \<noteq> []"
  shows "\<exists>t h'. Task inp outp None h = (Inr t, h') \<and>
           deref (m_logger t) h' = Some default_Log \<and>
           take (length h) h' = h \<and>
           (\<forall>h2. deref (m_logger t) h2 \<noteq> None \<longrightarrow>
              fst (warningIfMultipleInputsGiven t h2) = Inr () \<and>
              deref (m_logger t) (snd (warningIfMultipleInputsGiven t h2)) \<noteq> None \<and>
              fst (warningIfMultipleOutputsGiven t h2) = Inr () \<and>
              deref (m_logger t) (snd (warningIfMultipleOutputsGiven t h2)) \<noteq> None \<and>
              (\<forall>s. (\<exists>b. fst (stopOnErrorExtraction t s h2) = Inr b) \<and>
                   deref (m_logger t) (snd (snd (stopOnErrorExtraction t s h2))) \<noteq> None))"
proof (intro exI conjI)
  let ?t = "\<lparr>m_input = inp, m_output = outp, m_logger = Some (length h)\<rparr>"
  show "Task inp outp None h = (Inr ?t, h @ [default_Log])"
    using assms by (rule Task_null_logger)
  show "deref (m_logger ?t) (h @ [default_Log]) = Some default_Log"
    by (simp add: deref_def)
  show "take (length h) (h @ [default_Log]) = h"
    by simp
  show "\<forall>h2. deref (m_logger ?t) h2 \<noteq> None \<longrightarrow>
              fst (warningIfMultipleInputsGiven ?t h2) = Inr () \<and>
              deref (m_logger ?t) (snd (warningIfMultipleInputsGiven ?t h2)) \<noteq> None \<and>
              fst (warningIfMultipleOutputsGiven ?t h2) = Inr () \<and>
              deref (m_logger ?t) (snd (warningIfMultipleOutputsGiven ?t h2)) \<noteq> None \<and>
              (\<forall>s. (\<exists>b. fst (stopOnErrorExtraction ?t s h2) = Inr b) \<and>
                   deref (m_logger ?t) (snd (snd (stopOnErrorExtraction ?t s h2))) \<noteq> None)"
    using warningIfMultipleInputsGiven_valid [of ?t] warningIfMultipleOutputsGiven_valid [of ?t]
      stopOnErrorExtraction_valid [of ?t]
    by blast
qed

theorem Task_installs_default_logger_witness:
  "[''A'', ''C''] \<noteq> ([] :: string list) \<and>
   (\<exists>t h'. Task [''A'', ''C''] [''B''] None [] = (Inr t, h') \<and>
      deref (m_logger t) h' = Some default_Log \<and>
      fst (warningIfMultipleInputsGiven t h') = Inr () \<and>
      fst (warningIfMultipleOutputsGiven t h') = Inr () \<and>
      (\<exists>b. fst (stopOnErrorExtraction t [(''allow_unconverged'', True)] h') = Inr b))"
proof -
  have h: "[''A'', ''C''] \<noteq> ([] :: string list)" by simp
  from Task_installs_default_logger [OF h, of "[''B'']" "[]"]
  obtain t h' where
    "Task [''A'', ''C''] [''B''] None [] = (Inr t, h')"
    "deref (m_logger t) h' = Some default_Log"
    "\<forall>h2. deref (m_logger t) h2 \<noteq> None \<longrightarrow>
              fst (warningIfMultipleInputsGiven t h2) = Inr () \<and>
              deref (m_logger t) (snd (warningIfMultipleInputsGiven t h2)) \<noteq> None \<and>
              fst (warningIfMultipleOutputsGiven t h2) = Inr () \<and>
              deref (m_logger t) (snd (warningIfMultipleOutputsGiven t h2)) \<noteq> None \<and>
              (\<forall>s. (\<exists>b. fst (stopOnErrorExtraction t s h2) = Inr b) \<and>
                   deref (m_logger t) (snd (snd (stopOnErrorExtraction t s h2))) \<noteq> None)"
    by blast
  then show ?thesis using h by (metis option.distinct(1))
qed

subsection \<open>Copying a calculator\<close>

lemma c_str_append:
  "CHR 0x00 \<notin> set xs \<Longrightarrow> c_str (xs @ ys) = xs @ c_str ys"
  by (induction xs) (auto simp: c_str_def)

lemma c_str_no_NUL:
  "CHR 0x00 \<notin> set xs \<Longrightarrow> c_str xs = xs"
  by (induction xs) (auto simp: c_str_def)

lemma c_str_missing_system:
  assumes "CHR 0x00 \<notin> set name"
  shows "c_str (missing_system name taskName) =
           (''System name '' @ [CHR 0x27]) @ name @ ([CHR 0x27] @ '' is missing in '' @ c_str taskName)"
proof -
  let ?p = "(''System name '' @ [CHR 0x27]) @ name @ ([CHR 0x27] @ '' is missing in '')"
  have m: "missing_system name taskName = ?p @ taskName"
    by (simp add: missing_system_def)
  have "CHR 0x00 \<notin> set ?p"
    using assms by simp
  then have "c_str (?p @ taskName) = ?p @ c_str taskName"
    by (rule c_str_append)
  with m show ?thesis by simp
qed

lemma sublist_missing_system:
  "CHR 0x00 \<notin> set name \<Longrightarrow> sublist name (c_str (missing_system name taskName))"
  "CHR 0x00 \<notin> set name \<Longrightarrow> CHR 0x00 \<notin> set taskName \<Longrightarrow>
     sublist taskName (c_str (missing_system name taskName))"
proof -
  assume n: "CHR 0x00 \<notin> set name"
  show "sublist name (c_str (missing_system name taskName))"
    unfolding c_str_missing_system [OF n] by (rule sublist_appendI)
next
  assume n: "CHR 0x00 \<notin> set name" and t: "CHR 0x00 \<notin> set taskName"
  have "c_str (missing_system name taskName) =
      (''System name '' @ [CHR 0x27] @ name @ [CHR 0x27] @ '' is missing in '') @ taskName @ []"
    by (simp add: c_str_missing_system [OF n] c_str_no_NUL [OF t])
  then show "sublist taskName (c_str (missing_system name taskName))"
    unfolding sublist_def by blast
qed

lemma copyCalculator_absent:
  "systems name = None \<Longrightarrow>
   copyCalculator systems name taskName h =
     (Inl (runtime_error (c_str (missing_system name taskName))), systems, h)"
  by (simp add: copyCalculator_def std_runtime_error_def)

lemma copyCalculator_present:
  "systems name = Some (Some a) \<Longrightarrow> a < length h \<Longrightarrow>
   copyCalculator systems name taskName h = (Inr (Some (length h)), systems, h @ [h ! a])"
  by (simp add: copyCalculator_def deref_def clone_def)

lemma deref_assign_fresh:
  "deref p h \<noteq> None \<Longrightarrow> deref p (assign (Some (length h)) v (h @ [c])) = deref p h"
  by (cases p) (auto simp: deref_def assign_def nth_append split: if_splits)

text \<open>
  Claim C3, as the code has it. When the name is absent from the registry,
  \<open>copyCalculator\<close> fails with a \<open>runtime_error\<close> whose message is the text built from
  the system name and the task name, up to its first NUL byte: it contains the system
  name when that name has no NUL byte, and the task name as well when neither has one.
  When the name is present with a handle to a live calculator, it returns a handle to a
  new calculator, different from the stored one and from every live handle of the
  registry, in the state of the original; whatever is then assigned through the returned
  handle, the original and every calculator that was live before the call keep their
  state. Nothing is said of a name that is present with a null handle.
\<close>

theorem copyCalculator_error_or_clone:
  "(systems name = None \<longrightarrow>
      (\<exists>msg. copyCalculator systems name taskName h = (Inl (runtime_error msg), systems, h) \<and>
             msg = c_str (missing_system name taskName) \<and>
             (CHR 0x00 \<notin> set name \<longrightarrow> sublist name msg) \<and>
             (CHR 0x00 \<notin> set name \<and> CHR 0x00 \<notin> set taskName \<longrightarrow> sublist taskName msg))) \<and>
   (\<forall>a. systems name = Some (Some a) \<and> a < length h \<longrightarrow>
      (\<exists>q h'. copyCalculator systems name taskName h = (Inr (Some q), systems, h') \<and>
              q \<noteq> a \<and>
              deref (Some q) h' = deref (Some a) h \<and>
              (\<forall>n p. systems n = Some p \<and> deref p h \<noteq> None \<longrightarrow> p \<noteq> Some q) \<and>
              (\<forall>v p. deref p h \<noteq> None \<longrightarrow> deref p (assign (Some q) v h') = deref p h)))"
proof (intro conjI impI allI)
  assume "systems name = None"
  then show "\<exists>msg. copyCalculator systems name taskName h = (Inl (runtime_error msg), systems, h) \<and>
             msg = c_str (missing_system name taskName) \<and>
             (CHR 0x00 \<notin> set name \<longrightarrow> sublist name msg) \<and>
             (CHR 0x00 \<notin> set name \<and> CHR 0x00 \<notin> set taskName \<longrightarrow> sublist taskName msg)"
    using sublist_missing_system [of name taskName] by (simp add: copyCalculator_absent)
next
  fix a
  assume a: "systems name = Some (Some a) \<and> a < length h"
  show "\<exists>q h'. copyCalculator systems name taskName h = (Inr (Some q), systems, h') \<and>
              q \<noteq> a \<and>
              deref (Some q) h' = deref (Some a) h \<and>
              (\<forall>n p. systems n = Some p \<and> deref p h \<noteq> None \<longrightarrow> p \<noteq> Some q) \<and>
              (\<forall>v p. deref p h \<noteq> None \<longrightarrow> deref p (assign (Some q) v h') = deref p h)"
  proof (intro exI conjI)
    show "copyCalculator systems name taskName h = (Inr (Some (length h)), systems, h @ [h ! a])"
      using a by (simp add: copyCalculator_present)
    show "length h \<noteq> a" using a by simp
    show "deref (Some (length h)) (h @ [h ! a]) = deref (Some a) h"
      using a by (simp add: deref_def)
    show "\<forall>n p. systems n = Some p \<and> deref p h \<noteq> None \<longrightarrow> p \<noteq> Some (length h)"
      by (auto simp: deref_def)
    show "\<forall>v p. deref p h \<noteq> None \<longrightarrow> deref p (assign (Some (length h)) v (h @ [h ! a])) = deref p h"
      by (simp add: deref_assign_fresh)
  qed
qed

theorem copyCalculator_error_or_clone_witness:
  "(Map.empty(''A'' \<mapsto> Some (0 :: nat))) ''X'' = None \<and>
   CHR 0x00 \<notin> set ''X'' \<and> CHR 0x00 \<notin> set ''T'' \<and>
   (\<exists>msg. copyCalculator (Map.empty(''A'' \<mapsto> Some 0)) ''X'' ''T'' [5 :: nat] =
            (Inl (runtime_error msg), Map.empty(''A'' \<mapsto> Some 0), [5]) \<and>
          sublist ''X'' msg \<and> sublist ''T'' msg) \<and>
   (Map.empty(''A'' \<mapsto> Some (0 :: nat))) ''A'' = Some (Some 0) \<and> 0 < length [5 :: nat] \<and>
   (\<exists>q h'. copyCalculator (Map.empty(''A'' \<mapsto> Some 0)) ''A'' ''T'' [5 :: nat] =
            (Inr (Some q), Map.empty(''A'' \<mapsto> Some 0), h') \<and>
          q \<noteq> 0 \<and>
          deref (Some q) h' = deref (Some 0) [5] \<and>
          deref (Some 0) (assign (Some q) 7 h') = deref (Some 0) [5])"
proof -
  let ?sys = "Map.empty(''A'' \<mapsto> Some (0::nat))"
  have a: "?sys ''X'' = None" by simp
  have n: "CHR 0x00 \<notin> set ''X'' \<and> CHR 0x00 \<notin> set ''T''" by simp
  have b: "?sys ''A'' = Some (Some 0) \<and> 0 < length [5 :: nat]" by simp
  have c: "deref (Some 0) [5 :: nat] \<noteq> None" by (simp add: deref_def)
  show ?thesis
    using a n b c
      copyCalculator_error_or_clone [of ?sys "''X''" "''T''" "[5 :: nat]"]
      copyCalculator_error_or_clone [of ?sys "''A''" "''T''" "[5 :: nat]"]
    by (simp del: not_None_eq) blast
qed

text \<open>
  The claim as the spec words it fails at two inputs. A system name with a NUL byte is
  absent from the empty registry, and the message of the error names neither the system
  nor the task: it ends where the NUL stands. A name that is present with a null handle
  gets no clone: the handle is dereferenced unguarded.
\<close>

theorem copyCalculator_error_or_clone_counterexample:
  "(Map.empty :: SystemsMap) (''a'' @ [CHR 0x00] @ ''b'') = None \<and>
   copyCalculator Map.empty (''a'' @ [CHR 0x00] @ ''b'') ''T'' ([] :: nat list) =
     (Inl (runtime_error (''System name '' @ [CHR 0x27] @ ''a'')), Map.empty, []) \<and>
   \<not> sublist (''a'' @ [CHR 0x00] @ ''b'') (''System name '' @ [CHR 0x27] @ ''a'') \<and>
   \<not> sublist ''T'' (''System name '' @ [CHR 0x27] @ ''a'') \<and>
   (Map.empty(''A'' \<mapsto> None) :: SystemsMap) ''A'' = Some None \<and>
   copyCalculator (Map.empty(''A'' \<mapsto> None)) ''A'' ''T'' [5 :: nat] =
     (Inl invalid_dereference, Map.empty(''A'' \<mapsto> None), [5])"
proof (intro conjI)
  show "(Map.empty :: SystemsMap) (''a'' @ [CHR 0x00] @ ''b'') = None"
    by simp
  show "copyCalculator Map.empty (''a'' @ [CHR 0x00] @ ''b'') ''T'' ([] :: nat list) =
     (Inl (runtime_error (''System name '' @ [CHR 0x27] @ ''a'')), Map.empty, [])"
    by (simp add: copyCalculator_def std_runtime_error_def c_str_def missing_system_def)
  show "\<not> sublist (''a'' @ [CHR 0x00] @ ''b'') (''System name '' @ [CHR 0x27] @ ''a'')"
    by (simp add: sublist_Cons_right)
  show "\<not> sublist ''T'' (''System name '' @ [CHR 0x27] @ ''a'')"
    by (simp add: sublist_Cons_right)
  show "(Map.empty(''A'' \<mapsto> None) :: SystemsMap) ''A'' = Some None"
    by simp
  show "copyCalculator (Map.empty(''A'' \<mapsto> None)) ''A'' ''T'' [5 :: nat] =
     (Inl invalid_dereference, Map.empty(''A'' \<mapsto> None), [5])"
    by (simp add: copyCalculator_def deref_def)
qed

text \<open>
  Claim C10. Whether \<open>copyCalculator\<close> fails or succeeds, the registry it leaves is the
  registry it was given, the calculators that existed before the call are unchanged and
  every handle that was live refers to the same state; when it fails, the store of the
  calculators is unchanged as a whole.
\<close>

theorem copyCalculator_keeps_registry:
  "fst (snd (copyCalculator systems name taskName h)) = systems \<and>
   take (length h) (snd (snd (copyCalculator systems name taskName h))) = h \<and>
   (\<forall>p. deref p h \<noteq> None \<longrightarrow> deref p (snd (snd (copyCalculator systems name taskName h))) = deref p h) \<and>
   (\<forall>e. fst (copyCalculator systems name taskName h) = Inl e \<longrightarrow>
        snd (snd (copyCalculator systems name taskName h)) = h)"
  by (auto simp: copyCalculator_def clone_def deref_def nth_append split: option.splits if_splits)

theorem copyCalculator_keeps_registry_witness:
  "deref (Some 0) [5 :: nat] \<noteq> None \<and>
   fst (snd (copyCalculator (Map.empty(''A'' \<mapsto> Some 0)) ''A'' ''T'' [5 :: nat])) = Map.empty(''A'' \<mapsto> Some 0) \<and>
   deref (Some 0) (snd (snd (copyCalculator (Map.empty(''A'' \<mapsto> Some 0)) ''A'' ''T'' [5 :: nat]))) = Some 5 \<and>
   fst (copyCalculator (Map.empty(''A'' \<mapsto> Some 0)) ''X'' ''T'' [5 :: nat]) =
     Inl (runtime_error (missing_system ''X'' ''T'')) \<and>
   snd (snd (copyCalculator (Map.empty(''A'' \<mapsto> Some 0)) ''X'' ''T'' [5 :: nat])) = [5]"
proof -
  let ?sys = "Map.empty(''A'' \<mapsto> Some (0::nat))"
  have c: "deref (Some 0) [5 :: nat] \<noteq> None" by (simp add: deref_def)
  have e: "fst (copyCalculator ?sys ''X'' ''T'' [5 :: nat]) = Inl (runtime_error (missing_system ''X'' ''T''))"
    by (simp add: copyCalculator_absent c_str_no_NUL missing_system_def)
  have d: "deref (Some 0) [5 :: nat] = Some 5" by (simp add: deref_def)
  show ?thesis
    using c d e
      copyCalculator_keeps_registry [of ?sys "''A''" "''T''" "[5 :: nat]"]
      copyCalculator_keeps_registry [of ?sys "''X''" "''T''" "[5 :: nat]"]
    by (simp del: not_None_eq)
qed

subsection \<open>The test mode of \<open>run\<close>\<close>

lemma run_inputs_present:
  assumes "\<forall>n \<in> set (m_input t). systems n \<noteq> None"
  shows "run k t systems s test hc hl =
     (case stopOnErrorExtraction t s hl of
        (Inl e, s1, hl1) \<Rightarrow> (Inl e, systems, hc, hl1)
      | (Inr stopOnError, s1, hl1) \<Rightarrow>
          if \<not> list_all (\<lambda>(key, v). key = ''silent_stdout_calculator'' \<or> recognized k key) s1
          then (Inl (std_runtime_error (unexpected_settings k)), systems, hc, hl1)
          else if test then (Inr (structural_checks k systems hc), systems, hc, hl1)
          else calculation k stopOnError systems hc hl1)"
proof -
  from assms have "find (\<lambda>n. systems n = None) (m_input t) = None"
    by (simp add: find_None_iff)
  then show ?thesis by (simp add: run_def)
qed

text \<open>
  Claim C5. For every task and every registry that contains all input names of the task,
  \<open>run\<close> in test mode leaves the registry and the store of the calculators as they
  were, does not depend on the calculation of the concrete task, returns, when it
  returns, the outcome of the structural checks, and does return it when the logger
  exists and the settings hold recognized keys only.
\<close>

theorem run_test_mode:
  assumes "\<forall>n \<in> set (m_input t). systems n \<noteq> None"
  shows "fst (snd (run k t systems s True hc hl)) = systems \<and>
         fst (snd (snd (run k t systems s True hc hl))) = hc \<and>
         (\<forall>c. run (k\<lparr>calculation := c\<rparr>) t systems s True hc hl = run k t systems s True hc hl) \<and>
         (\<forall>b. fst (run k t systems s True hc hl) = Inr b \<longrightarrow> b = structural_checks k systems hc) \<and>
         (deref (m_logger t) hl \<noteq> None \<and>
          list_all (\<lambda>(key, v). key = ''silent_stdout_calculator'' \<or> recognized k key)
            (filter (\<lambda>(key, v). key \<noteq> ''allow_unconverged'' \<and> key \<noteq> ''stop_on_error'') s) \<longrightarrow>
          fst (run k t systems s True hc hl) = Inr (structural_checks k systems hc))"
proof (intro conjI allI impI)
  show "fst (snd (run k t systems s True hc hl)) = systems"
    by (simp add: run_inputs_present [OF assms] split: prod.splits sum.splits)
  show "fst (snd (snd (run k t systems s True hc hl))) = hc"
    by (simp add: run_inputs_present [OF assms] split: prod.splits sum.splits)
  show "run (k\<lparr>calculation := c\<rparr>) t systems s True hc hl = run k t systems s True hc hl" for c
    by (simp add: run_inputs_present [OF assms] split: prod.splits sum.splits)
  show "b = structural_checks k systems hc" if "fst (run k t systems s True hc hl) = Inr b" for b
    using that
    by (simp add: run_inputs_present [OF assms] split: prod.splits sum.splits if_splits)
  show "fst (run k t systems s True hc hl) = Inr (structural_checks k systems hc)"
    if h: "deref (m_logger t) hl \<noteq> None \<and>
          list_all (\<lambda>(key, v). key = ''silent_stdout_calculator'' \<or> recognized k key)
            (filter (\<lambda>(key, v). key \<noteq> ''allow_unconverged'' \<and> key \<noteq> ''stop_on_error'') s)"
  proof -
    from h obtain b where b: "fst (stopOnErrorExtraction t s hl) = Inr b"
      using stopOnErrorExtraction_valid(1) [of t hl s] by blast
    from h have s1: "fst (snd (stopOnErrorExtraction t s hl)) =
        filter (\<lambda>(key, v). key \<noteq> ''allow_unconverged'' \<and> key \<noteq> ''stop_on_error'') s"
      by (simp add: stopOnErrorExtraction_settings delete_delete_filter)
    obtain r s1 hl1 where e: "stopOnErrorExtraction t s hl = (r, s1, hl1)"
      by (cases "stopOnErrorExtraction t s hl") auto
    with b s1 h show ?thesis
      by (simp add: run_inputs_present [OF assms])
  qed
qed

theorem run_test_mode_witness:
  "(Map.empty(''A'' \<mapsto> Some (0 :: nat))) ''A'' \<noteq> None \<and>
   deref (m_logger \<lparr>m_input = [''A''], m_output = [''B''], m_logger = Some 0\<rparr>) [default_Log] \<noteq> None \<and>
   fst (run \<lparr>task_name = ''T'', recognized = (\<lambda>key. False),
              unexpected_settings = falseTaskSettingsErrorMessage ''T'',
              structural_checks = (\<lambda>systems hc. True),
              calculation = (\<lambda>stopOnError systems hc hl.
                 (Inr True, systems(''B'' \<mapsto> Some (length hc)), hc @ [7 :: nat], hl))\<rparr>
          \<lparr>m_input = [''A''], m_output = [''B''], m_logger = Some 0\<rparr>
          (Map.empty(''A'' \<mapsto> Some 0)) [] True [5] [default_Log]) = Inr True \<and>
   fst (snd (run \<lparr>task_name = ''T'', recognized = (\<lambda>key. False),
              unexpected_settings = falseTaskSettingsErrorMessage ''T'',
              structural_checks = (\<lambda>systems hc. True),
              calculation = (\<lambda>stopOnError systems hc hl.
                 (Inr True, systems(''B'' \<mapsto> Some (length hc)), hc @ [7 :: nat], hl))\<rparr>
          \<lparr>m_input = [''A''], m_output = [''B''], m_logger = Some 0\<rparr>
          (Map.empty(''A'' \<mapsto> Some 0)) [] True [5] [default_Log])) ''B'' = None \<and>
   fst (snd (snd (run \<lparr>task_name = ''T'', recognized = (\<lambda>key. False),
              unexpected_settings = falseTaskSettingsErrorMessage ''T'',
              structural_checks = (\<lambda>systems hc. True),
              calculation = (\<lambda>stopOnError systems hc hl.
                 (Inr True, systems(''B'' \<mapsto> Some (length hc)), hc @ [7 :: nat], hl))\<rparr>
          \<lparr>m_input = [''A''], m_output = [''B''], m_logger = Some 0\<rparr>
          (Map.empty(''A'' \<mapsto> Some 0)) [] True [5] [default_Log]))) = [5]"
proof -
  let ?t = "\<lparr>m_input = [''A''], m_output = [''B''], m_logger = Some 0\<rparr>"
  let ?sys = "Map.empty(''A'' \<mapsto> Some (0::nat))"
  let ?k = "\<lparr>task_name = ''T'', recognized = (\<lambda>key. False),
              unexpected_settings = falseTaskSettingsErrorMessage ''T'',
              structural_checks = (\<lambda>systems hc. True),
              calculation = (\<lambda>stopOnError systems hc hl.
                 (Inr True, systems(''B'' \<mapsto> Some (length hc)), hc @ [7 :: nat], hl))\<rparr>"
  have i: "\<forall>n \<in> set (m_input ?t). ?sys n \<noteq> None" by simp
  have l: "deref (m_logger ?t) [default_Log] \<noteq> None" by (simp add: deref_def)
  have g: "list_all (\<lambda>(key, v). key = ''silent_stdout_calculator'' \<or> recognized ?k key)
            (filter (\<lambda>(key, v). key \<noteq> ''allow_unconverged'' \<and> key \<noteq> ''stop_on_error'') [])"
    by simp
  note r = run_test_mode [OF i, of ?k "[]" "[5 :: nat]" "[default_Log]"]
  from r have c1: "fst (snd (run ?k ?t ?sys [] True [5] [default_Log])) = ?sys"
    by (rule conjunct1)
  from r have c2: "fst (snd (snd (run ?k ?t ?sys [] True [5] [default_Log]))) = [5]"
    by blast
  from r l g have "fst (run ?k ?t ?sys [] True [5] [default_Log]) = Inr (structural_checks ?k ?sys [5])"
    by blast
  then have c3: "fst (run ?k ?t ?sys [] True [5] [default_Log]) = Inr True"
    by simp
  have "?sys ''A'' \<noteq> None" by simp
  moreover have "fst (snd (run ?k ?t ?sys [] True [5] [default_Log])) ''B'' = None"
    by (simp only: c1) simp
  ultimately show ?thesis
    using l c2 c3 by blast
qed

subsection \<open>The text of the settings error\<close>

text \<open>
  Claim C7. For every task name, the text that \<open>falseTaskSettingsErrorMessage\<close> builds
  contains, as contiguous substrings, the name itself, \<open>stop_on_error\<close> and
  \<open>silent_stdout_calculator\<close>.
\<close>

theorem falseTaskSettingsErrorMessage_contains:
  "sublist name (falseTaskSettingsErrorMessage name) \<and>
   sublist ''stop_on_error'' (falseTaskSettingsErrorMessage name) \<and>
   sublist ''silent_stdout_calculator'' (falseTaskSettingsErrorMessage name)"
proof (intro conjI)
  show "sublist name (falseTaskSettingsErrorMessage name)"
    unfolding falseTaskSettingsErrorMessage_def
    by (rule sublist_appendI)
next
  have "falseTaskSettingsErrorMessage name =
      (''  You gave Task settings for the '' @ name @ '',\<newline>'' @
       ''  but the only possible setting for this task, are the\<newline>'' @ ''  '' @ [CHR 0x27]) @
      ''stop_on_error'' @
      ([CHR 0x27] @ '' option to control whether ReaDuct fails\<newline>'' @
       ''  with a failed calculation or simply returns false\<newline>'' @
       ''  and the 'silent_stdout_calculator' option to control whether\<newline>'' @
       ''  the standard output of the calculator should be printed.\<newline>'' @
       ''  You might want to specify the settings you put into the task settings\<newline>'' @
       ''  in the systems section.'')"
    by (simp add: falseTaskSettingsErrorMessage_def)
  then show "sublist ''stop_on_error'' (falseTaskSettingsErrorMessage name)"
    unfolding sublist_def by blast
next
  have "falseTaskSettingsErrorMessage name =
      (''  You gave Task settings for the '' @ name @ '',\<newline>'' @
       ''  but the only possible setting for this task, are the\<newline>'' @
       ''  'stop_on_error' option to control whether ReaDuct fails\<newline>'' @
       ''  with a failed calculation or simply returns false\<newline>'' @
       ''  and the '' @ [CHR 0x27]) @
      ''silent_stdout_calculator'' @
      ([CHR 0x27] @ '' option to control whether\<newline>'' @
       ''  the standard output of the calculator should be printed.\<newline>'' @
       ''  You might want to specify the settings you put into the task settings\<newline>'' @
       ''  in the systems section.'')"
    by (simp add: falseTaskSettingsErrorMessage_def)
  then show "sublist ''silent_stdout_calculator'' (falseTaskSettingsErrorMessage name)"
    unfolding sublist_def by blast
qed

end
